theory Spec2Isabelle
  imports Complex_Main "HOL-Library.Sublist"
begin

section \<open>Data model (models.py)\<close>

text \<open>
  Each Python \<open>Enum\<close> is a datatype; a member \<open>EducationLevel.UG\<close> is written
  \<open>EducationLevel_UG\<close>, since several enumerations share the member names HIGH, MEDIUM
  and LOW. The \<open>.value\<close> of a member is given by a function \<open>X_value\<close>.

  Python strings are modelled as \<open>string\<close>, one \<open>char\<close> per code point, which covers the
  strings whose code points are below 256. A Python \<open>float\<close> is modelled as an exact
  rational number: decimal literals denote their exact values, and the rounding of
  IEEE arithmetic is not part of the model.
\<close>

datatype EducationLevel =
  EducationLevel_DIPLOMA | EducationLevel_UG | EducationLevel_PG | EducationLevel_PHD

datatype InstitutionType =
  InstitutionType_GOVERNMENT | InstitutionType_PRIVATE
  | InstitutionType_AUTONOMOUS | InstitutionType_OPEN

datatype BackgroundIndicator =
  BackgroundIndicator_RURAL | BackgroundIndicator_FIRST_GENERATION
  | BackgroundIndicator_FINANCIAL_SUPPORT | BackgroundIndicator_DISABLED
  | BackgroundIndicator_MINORITY

datatype OpportunityGoal =
  OpportunityGoal_SCHOLARSHIPS | OpportunityGoal_INTERNSHIPS | OpportunityGoal_RESEARCH
  | OpportunityGoal_SKILLS | OpportunityGoal_GOVT_EXAMS

datatype MissedOpportunityFrequency =
  MissedOpportunityFrequency_YES_MANY_TIMES | MissedOpportunityFrequency_ONCE_OR_TWICE
  | MissedOpportunityFrequency_NO

datatype MissProbability =
  MissProbability_HIGH | MissProbability_MEDIUM | MissProbability_LOW

datatype VisibilityLevel =
  VisibilityLevel_HIGH | VisibilityLevel_MEDIUM | VisibilityLevel_LOW

datatype ImpactLevel =
  ImpactLevel_HIGH | ImpactLevel_MEDIUM | ImpactLevel_LOW

datatype AwarenessLevel =
  AwarenessLevel_LOW | AwarenessLevel_MEDIUM | AwarenessLevel_HIGH

fun EducationLevel_value :: "EducationLevel \<Rightarrow> string" where
  "EducationLevel_value EducationLevel_DIPLOMA = ''Diploma''"
| "EducationLevel_value EducationLevel_UG = ''UG''"
| "EducationLevel_value EducationLevel_PG = ''PG''"
| "EducationLevel_value EducationLevel_PHD = ''PhD''"

fun InstitutionType_value :: "InstitutionType \<Rightarrow> string" where
  "InstitutionType_value InstitutionType_GOVERNMENT = ''Government''"
| "InstitutionType_value InstitutionType_PRIVATE = ''Private''"
| "InstitutionType_value InstitutionType_AUTONOMOUS = ''Autonomous''"
| "InstitutionType_value InstitutionType_OPEN = ''Open''"

fun BackgroundIndicator_value :: "BackgroundIndicator \<Rightarrow> string" where
  "BackgroundIndicator_value BackgroundIndicator_RURAL = ''Rural''"
| "BackgroundIndicator_value BackgroundIndicator_FIRST_GENERATION = ''First-generation''"
| "BackgroundIndicator_value BackgroundIndicator_FINANCIAL_SUPPORT = ''Financial support''"
| "BackgroundIndicator_value BackgroundIndicator_DISABLED = ''Disabled''"
| "BackgroundIndicator_value BackgroundIndicator_MINORITY = ''Minority''"

fun OpportunityGoal_value :: "OpportunityGoal \<Rightarrow> string" where
  "OpportunityGoal_value OpportunityGoal_SCHOLARSHIPS = ''Scholarships''"
| "OpportunityGoal_value OpportunityGoal_INTERNSHIPS = ''Internships''"
| "OpportunityGoal_value OpportunityGoal_RESEARCH = ''Research''"
| "OpportunityGoal_value OpportunityGoal_SKILLS = ''Skills''"
| "OpportunityGoal_value OpportunityGoal_GOVT_EXAMS = ''Govt Exams''"

fun ImpactLevel_value :: "ImpactLevel \<Rightarrow> string" where
  "ImpactLevel_value ImpactLevel_HIGH = ''High''"
| "ImpactLevel_value ImpactLevel_MEDIUM = ''Medium''"
| "ImpactLevel_value ImpactLevel_LOW = ''Low''"

text \<open>
  The dataclasses. Fields carry the declared types, so the \<open>is None\<close> tests that the
  code makes on fields declared \<open>int\<close>, \<open>str\<close> or as an enumeration have no counterpart;
  only the two fields declared \<open>Optional\<close> are options. Where two classes use one field
  name (\<open>name\<close>, \<open>category\<close>, \<open>relevance_score\<close>) the fields of Opportunity and
  OpportunityMatch are prefixed; \<open>id\<close> is prefixed because HOL has a constant of that name.
\<close>

record StudentProfile =
  name :: string
  age :: int
  education_level :: EducationLevel
  degree :: string
  field_of_study :: string
  year_of_study :: int
  institution_type :: InstitutionType
  background_indicators :: "BackgroundIndicator list"
  opportunity_goals :: "OpportunityGoal list"
  missed_opportunities_before :: MissedOpportunityFrequency
  gender :: "string option"
  additional_context :: "string option"

record EligibilityCriteria =
  education_levels :: "EducationLevel list"
  fields_of_study :: "string list option"
  institution_types :: "InstitutionType list option"
  background_requirements :: "BackgroundIndicator list option"
  income_based :: bool
  merit_based :: bool

record Opportunity =
  opp_id :: string
  opp_name :: string
  description :: string
  eligibility_criteria :: EligibilityCriteria
  visibility_level :: VisibilityLevel
  impact_level :: ImpactLevel
  opp_category :: string

record Blindspot =
  category :: string
  reason :: string
  relevance_score :: rat

record OpportunityMatch =
  opportunity :: Opportunity
  fit_explanation :: string
  miss_reason :: string
  miss_probability :: MissProbability
  match_relevance_score :: rat

record ProfileAnalysis =
  key_characteristics :: "string list"
  eligibility_tags :: "string list"
  awareness_level :: AwarenessLevel
  priority_goals :: "OpportunityGoal list"

section \<open>String operations of Python used by the program\<close>

text \<open>
  \<open>str.lower()\<close> on code points below 256: the upper-case letters are A to Z and the
  Latin-1 letters 192 to 222 except the multiplication sign 215; each is mapped to the
  code point 32 above it, every other character is kept.
\<close>

definition char_lower :: "char \<Rightarrow> char" where
  "char_lower c =
     (let n = (of_char c :: nat)
      in if (65 \<le> n \<and> n \<le> 90) \<or> (192 \<le> n \<and> n \<le> 222 \<and> n \<noteq> 215)
         then char_of (n + 32) else c)"

definition lower :: "string \<Rightarrow> string" where
  "lower s = map char_lower s"

text \<open>\<open>s.startswith(p)\<close> and the substring test \<open>p in s\<close>.\<close>

fun startswith :: "string \<Rightarrow> string \<Rightarrow> bool" where
  "startswith s [] = True"
| "startswith [] (p # ps) = False"
| "startswith (c # s) (p # ps) = (c = p \<and> startswith s ps)"

fun contains :: "string \<Rightarrow> string \<Rightarrow> bool" where
  "contains [] p = (p = [])"
| "contains (c # s) p = (startswith (c # s) p \<or> contains s p)"

text \<open>\<open>sep.join(xs)\<close>.\<close>

fun join :: "string \<Rightarrow> string list \<Rightarrow> string" where
  "join sep [] = []"
| "join sep [x] = x"
| "join sep (x # y # ys) = x @ sep @ join sep (y # ys)"

text \<open>
  \<open>str.isspace\<close> per character, for code points below 256, and the test
  \<open>not s or not s.strip()\<close>: a string is blank when every character is white space.
\<close>

definition is_space :: "char \<Rightarrow> bool" where
  "is_space c =
     (let n = (of_char c :: nat)
      in (9 \<le> n \<and> n \<le> 13) \<or> (28 \<le> n \<and> n \<le> 32) \<or> n = 133 \<or> n = 160)"

definition blank :: "string \<Rightarrow> bool" where
  "blank s = (s = [] \<or> list_all is_space s)"

text \<open>\<open>str(n)\<close> for an integer, as an f-string renders it.\<close>

fun digits :: "nat \<Rightarrow> string" where
  "digits n = (if n < 10 then [char_of (48 + n)] else digits (n div 10) @ [char_of (48 + n mod 10)])"

definition str_int :: "int \<Rightarrow> string" where
  "str_int i = (if i < 0 then CHR ''-'' # digits (nat (- i)) else digits (nat i))"

section \<open>ProfileAnalyzer (profile\_analyzer.py)\<close>

definition extract_characteristics :: "StudentProfile \<Rightarrow> string list" where
  "extract_characteristics profile =
     [EducationLevel_value (education_level profile),
      field_of_study profile,
      InstitutionType_value (institution_type profile)]
     @ map BackgroundIndicator_value (background_indicators profile)"

definition extract_eligibility_tags :: "StudentProfile \<Rightarrow> string list" where
  "extract_eligibility_tags profile =
     map BackgroundIndicator_value (background_indicators profile)"

fun map_awareness_level :: "MissedOpportunityFrequency \<Rightarrow> AwarenessLevel" where
  "map_awareness_level MissedOpportunityFrequency_YES_MANY_TIMES = AwarenessLevel_LOW"
| "map_awareness_level MissedOpportunityFrequency_ONCE_OR_TWICE = AwarenessLevel_MEDIUM"
| "map_awareness_level MissedOpportunityFrequency_NO = AwarenessLevel_HIGH"

definition analyze :: "StudentProfile \<Rightarrow> ProfileAnalysis" where
  "analyze profile =
     \<lparr> key_characteristics = extract_characteristics profile,
       eligibility_tags = extract_eligibility_tags profile,
       awareness_level = map_awareness_level (missed_opportunities_before profile),
       priority_goals = opportunity_goals profile \<rparr>"

section \<open>BlindspotIdentifier (blindspot\_identifier.py)\<close>

definition STEM_FIELDS :: "string list" where
  "STEM_FIELDS =
     [''Computer Science'', ''Engineering'', ''Mathematics'', ''Physics'',
      ''Chemistry'', ''Biology'', ''Statistics'', ''Data Science'',
      ''Information Technology'', ''Electronics'', ''Mechanical'',
      ''Civil'', ''Chemical'', ''Biotechnology'']"

definition has_financial_background :: "string list \<Rightarrow> bool" where
  "has_financial_background tags =
     (BackgroundIndicator_value BackgroundIndicator_FINANCIAL_SUPPORT \<in> set tags)"

definition is_stem_field :: "string \<Rightarrow> bool" where
  "is_stem_field fld =
     (let field_lower = lower fld
      in list_ex (\<lambda>stem. contains field_lower (lower stem)) STEM_FIELDS)"

definition has_special_category :: "string option \<Rightarrow> string list \<Rightarrow> bool" where
  "has_special_category gndr tags =
     (if (case gndr of None \<Rightarrow> False
          | Some g \<Rightarrow> g \<noteq> [] \<and> lower g \<in> set [''female'', ''woman'', ''f''])
      then True
      else if BackgroundIndicator_value BackgroundIndicator_DISABLED \<in> set tags then True
      else False)"

definition mentions_innovation :: "string option \<Rightarrow> bool" where
  "mentions_innovation ctx =
     (case ctx of None \<Rightarrow> False
      | Some c \<Rightarrow>
          if c = [] then False
          else (let innovation_keywords =
                      [''innovation'', ''innovate'', ''innovative'', ''startup'', ''entrepreneur''];
                    context_lower = lower c
                in list_ex (\<lambda>keyword. contains context_lower keyword) innovation_keywords))"

text \<open>
  The body of \<open>identify_blindspots\<close> is a sequence of twelve guarded appends to the
  list \<open>blindspots\<close>. Each is a function from the list before the statement to the list
  after it; \<open>append_if\<close> is the statement \<open>if cond: blindspots.append(b)\<close>.
\<close>

definition append_if :: "bool \<Rightarrow> Blindspot \<Rightarrow> Blindspot list \<Rightarrow> Blindspot list" where
  "append_if cond b blindspots = (if cond then blindspots @ [b] else blindspots)"

definition rule1 :: "ProfileAnalysis \<Rightarrow> Blindspot list \<Rightarrow> Blindspot list" where
  "rule1 analysis =
     append_if (has_financial_background (eligibility_tags analysis)
                \<and> OpportunityGoal_SCHOLARSHIPS \<in> set (priority_goals analysis))
       \<lparr> category = ''Income-based Central Government Scholarships'',
         reason = ''Many students don't know about central government scholarships that don't require high merit'',
         relevance_score = 9 / 10 \<rparr>"

definition rule2 :: "StudentProfile \<Rightarrow> Blindspot list \<Rightarrow> Blindspot list" where
  "rule2 profile =
     append_if (is_stem_field (field_of_study profile)
                \<and> education_level profile \<in> set [EducationLevel_UG, EducationLevel_PG])
       \<lparr> category = ''Research Internships and Programs'',
         reason = ''STEM students often focus on placements and miss research opportunities from national platforms'',
         relevance_score = 8 / 10 \<rparr>"

definition rule3 :: "StudentProfile \<Rightarrow> ProfileAnalysis \<Rightarrow> Blindspot list \<Rightarrow> Blindspot list" where
  "rule3 profile analysis =
     append_if (institution_type profile \<in> set [InstitutionType_GOVERNMENT, InstitutionType_AUTONOMOUS]
                \<and> OpportunityGoal_SCHOLARSHIPS \<in> set (priority_goals analysis))
       \<lparr> category = ''State-level Merit Scholarships'',
         reason = ''State scholarships have poor visibility compared to national programs'',
         relevance_score = 7 / 10 \<rparr>"

definition rule4 :: "StudentProfile \<Rightarrow> ProfileAnalysis \<Rightarrow> Blindspot list \<Rightarrow> Blindspot list" where
  "rule4 profile analysis =
     append_if (has_special_category (gender profile) (eligibility_tags analysis))
       \<lparr> category = ''Category-specific Technical Scholarships'',
         reason = ''Technical scholarships for specific categories are often under-promoted in colleges'',
         relevance_score = 85 / 100 \<rparr>"

definition rule5 :: "StudentProfile \<Rightarrow> ProfileAnalysis \<Rightarrow> Blindspot list \<Rightarrow> Blindspot list" where
  "rule5 profile analysis =
     append_if (OpportunityGoal_SKILLS \<in> set (priority_goals analysis)
                \<or> mentions_innovation (additional_context profile))
       \<lparr> category = ''Government Innovation and Skill Programs'',
         reason = ''Innovation programs are often buried in government websites with poor outreach'',
         relevance_score = 6 / 10 \<rparr>"

definition rule6 :: "ProfileAnalysis \<Rightarrow> Blindspot list \<Rightarrow> Blindspot list" where
  "rule6 analysis =
     append_if (OpportunityGoal_INTERNSHIPS \<in> set (priority_goals analysis))
       \<lparr> category = ''Industry and Government Internships'',
         reason = ''Many internship programs beyond campus placements remain unknown to students'',
         relevance_score = 65 / 100 \<rparr>"

definition rule7 :: "ProfileAnalysis \<Rightarrow> Blindspot list \<Rightarrow> Blindspot list" where
  "rule7 analysis =
     append_if (OpportunityGoal_GOVT_EXAMS \<in> set (priority_goals analysis))
       \<lparr> category = ''Government Exam Preparation Resources'',
         reason = ''Free government resources for exam preparation are often overlooked'',
         relevance_score = 55 / 100 \<rparr>"

definition rule8 :: "StudentProfile \<Rightarrow> ProfileAnalysis \<Rightarrow> Blindspot list \<Rightarrow> Blindspot list" where
  "rule8 profile analysis =
     append_if (OpportunityGoal_RESEARCH \<in> set (priority_goals analysis)
                \<and> \<not> is_stem_field (field_of_study profile))
       \<lparr> category = ''Interdisciplinary Research Programs'',
         reason = ''Research opportunities exist beyond traditional STEM fields but are rarely promoted'',
         relevance_score = 58 / 100 \<rparr>"

definition rule9 :: "ProfileAnalysis \<Rightarrow> Blindspot list \<Rightarrow> Blindspot list" where
  "rule9 analysis blindspots =
     append_if (length blindspots < 3 \<and> OpportunityGoal_SCHOLARSHIPS \<in> set (priority_goals analysis))
       \<lparr> category = ''Merit and Need-based Scholarships'',
         reason = ''Many scholarship programs exist beyond the well-known ones, but lack awareness'',
         relevance_score = 5 / 10 \<rparr>
       blindspots"

definition rule10 :: "Blindspot list \<Rightarrow> Blindspot list" where
  "rule10 blindspots =
     append_if (length blindspots < 3)
       \<lparr> category = ''Skill Development and Certification Programs'',
         reason = ''Free skill development programs from government and institutions often go unnoticed'',
         relevance_score = 45 / 100 \<rparr>
       blindspots"

definition rule11 :: "Blindspot list \<Rightarrow> Blindspot list" where
  "rule11 blindspots =
     append_if (length blindspots < 3)
       \<lparr> category = ''Academic Enhancement Programs'',
         reason = ''Programs for academic growth beyond regular curriculum are rarely promoted'',
         relevance_score = 4 / 10 \<rparr>
       blindspots"

definition rule12 :: "Blindspot list \<Rightarrow> Blindspot list" where
  "rule12 blindspots =
     append_if (length blindspots < 3)
       \<lparr> category = ''Career Guidance and Mentorship Programs'',
         reason = ''Structured career guidance programs from institutions and government are underutilized'',
         relevance_score = 35 / 100 \<rparr>
       blindspots"

text \<open>The list after rules 1 to 8, and after the four fallback rules 9 to 12.\<close>

definition primary_rules :: "StudentProfile \<Rightarrow> ProfileAnalysis \<Rightarrow> Blindspot list" where
  "primary_rules profile analysis =
     (rule8 profile analysis \<circ> rule7 analysis \<circ> rule6 analysis \<circ> rule5 profile analysis
      \<circ> rule4 profile analysis \<circ> rule3 profile analysis \<circ> rule2 profile \<circ> rule1 analysis) []"

definition fallback_rules :: "ProfileAnalysis \<Rightarrow> Blindspot list \<Rightarrow> Blindspot list" where
  "fallback_rules analysis = rule12 \<circ> rule11 \<circ> rule10 \<circ> rule9 analysis"

definition accumulated_blindspots :: "StudentProfile \<Rightarrow> ProfileAnalysis \<Rightarrow> Blindspot list" where
  "accumulated_blindspots profile analysis =
     fallback_rules analysis (primary_rules profile analysis)"

text \<open>
  \<open>xs.sort(key=k, reverse=True)\<close>: Python's sort is stable, also when reversed, so
  elements with equal keys keep their order. It is the stable insertion sort on the
  negated key.
\<close>

definition sort_reverse :: "('a \<Rightarrow> rat) \<Rightarrow> 'a list \<Rightarrow> 'a list" where
  "sort_reverse k xs = sort_key (\<lambda>x. - k x) xs"

datatype py_exception = ValueError string

definition identify_blindspots ::
    "StudentProfile \<Rightarrow> ProfileAnalysis \<Rightarrow> py_exception + Blindspot list" where
  "identify_blindspots profile analysis =
     (let blindspots = accumulated_blindspots profile analysis;
          blindspots = sort_reverse relevance_score blindspots
      in if length blindspots < 3
         then Inl (ValueError (''Implementation error: Only '' @ str_int (int (length blindspots))
                               @ '' blindspots generated, minimum is 3''))
         else Inr (take 5 blindspots))"

section \<open>Knowledge base (knowledge\_base.py)\<close>

text \<open>
  The module-level list \<open>OPPORTUNITIES\<close>. The components read it through
  \<open>get_all_opportunities\<close>, which returns a copy of the list; the functions below take
  the list as their first argument \<open>catalog\<close>, so that a claim can speak about any
  content of the knowledge base, the empty one included.
\<close>

definition OPPORTUNITIES :: "Opportunity list" where
  "OPPORTUNITIES =
     [\<lparr> opp_id = ''central-sector-scholarship'',
        opp_name = ''Central Sector Scholarship'',
        description = ''Central government scholarship for undergraduate students from families with income below threshold'',
        eligibility_criteria =
          \<lparr> education_levels = [EducationLevel_UG],
            fields_of_study = None,
            institution_types = None,
            background_requirements = None,
            income_based = True,
            merit_based = False \<rparr>,
        visibility_level = VisibilityLevel_MEDIUM,
        impact_level = ImpactLevel_HIGH,
        opp_category = ''Scholarship'' \<rparr>,
      \<lparr> opp_id = ''aicte-pragati'',
        opp_name = ''AICTE Pragati'',
        description = ''AICTE scholarship for female engineering students'',
        eligibility_criteria =
          \<lparr> education_levels = [EducationLevel_UG],
            fields_of_study = Some [''Engineering''],
            institution_types = None,
            background_requirements = None,
            income_based = False,
            merit_based = False \<rparr>,
        visibility_level = VisibilityLevel_LOW,
        impact_level = ImpactLevel_HIGH,
        opp_category = ''Scholarship'' \<rparr>,
      \<lparr> opp_id = ''aicte-saksham'',
        opp_name = ''AICTE Saksham'',
        description = ''AICTE scholarship for disabled engineering students'',
        eligibility_criteria =
          \<lparr> education_levels = [EducationLevel_UG],
            fields_of_study = Some [''Engineering''],
            institution_types = None,
            background_requirements = Some [BackgroundIndicator_DISABLED],
            income_based = False,
            merit_based = False \<rparr>,
        visibility_level = VisibilityLevel_LOW,
        impact_level = ImpactLevel_HIGH,
        opp_category = ''Scholarship'' \<rparr>,
      \<lparr> opp_id = ''nptel-research-internship'',
        opp_name = ''NPTEL Research Internship'',
        description = ''Research internship program for STEM students'',
        eligibility_criteria =
          \<lparr> education_levels = [EducationLevel_UG, EducationLevel_PG],
            fields_of_study = Some [''Engineering'', ''Science'', ''Mathematics'', ''Computer Science''],
            institution_types = None,
            background_requirements = None,
            income_based = False,
            merit_based = False \<rparr>,
        visibility_level = VisibilityLevel_MEDIUM,
        impact_level = ImpactLevel_MEDIUM,
        opp_category = ''Internship'' \<rparr>,
      \<lparr> opp_id = ''state-govt-merit-scholarship'',
        opp_name = ''State Government Merit Scholarships'',
        description = ''Merit-based scholarships offered by state governments'',
        eligibility_criteria =
          \<lparr> education_levels =
              [EducationLevel_DIPLOMA, EducationLevel_UG, EducationLevel_PG, EducationLevel_PHD],
            fields_of_study = None,
            institution_types = None,
            background_requirements = None,
            income_based = False,
            merit_based = True \<rparr>,
        visibility_level = VisibilityLevel_LOW,
        impact_level = ImpactLevel_MEDIUM,
        opp_category = ''Scholarship'' \<rparr>,
      \<lparr> opp_id = ''moe-innovation-programs'',
        opp_name = ''Ministry of Education Innovation Programs'',
        description = ''Innovation and skill development programs by Ministry of Education'',
        eligibility_criteria =
          \<lparr> education_levels =
              [EducationLevel_DIPLOMA, EducationLevel_UG, EducationLevel_PG, EducationLevel_PHD],
            fields_of_study = None,
            institution_types = None,
            background_requirements = None,
            income_based = False,
            merit_based = False \<rparr>,
        visibility_level = VisibilityLevel_LOW,
        impact_level = ImpactLevel_MEDIUM,
        opp_category = ''Program'' \<rparr>]"

definition get_all_opportunities :: "Opportunity list \<Rightarrow> Opportunity list" where
  "get_all_opportunities catalog = catalog"

section \<open>OpportunityMatcher (opportunity\_matcher.py)\<close>

definition is_eligible :: "StudentProfile \<Rightarrow> EligibilityCriteria \<Rightarrow> bool" where
  "is_eligible profile criteria =
     (if education_level profile \<notin> set (education_levels criteria) then False
      else if (case fields_of_study criteria of None \<Rightarrow> False
               | Some fs \<Rightarrow> field_of_study profile \<notin> set fs) then False
      else if (case institution_types criteria of None \<Rightarrow> False
               | Some ts \<Rightarrow> institution_type profile \<notin> set ts) then False
      else if (case background_requirements criteria of None \<Rightarrow> False
               | Some reqs \<Rightarrow>
                   \<not> list_ex (\<lambda>req. req \<in> set (background_indicators profile)) reqs) then False
      else True)"

definition calculate_miss_probability :: "VisibilityLevel \<Rightarrow> AwarenessLevel \<Rightarrow> MissProbability" where
  "calculate_miss_probability visibility awareness =
     (if visibility = VisibilityLevel_LOW then MissProbability_HIGH
      else if visibility = VisibilityLevel_MEDIUM then
        (if awareness = AwarenessLevel_LOW then MissProbability_HIGH
         else if awareness = AwarenessLevel_MEDIUM then MissProbability_MEDIUM
         else MissProbability_LOW)
      else if awareness = AwarenessLevel_LOW then MissProbability_MEDIUM
      else MissProbability_LOW)"

text \<open>
  The loop body of \<open>_calculate_blindspot_alignment\<close> is a sequence of thirteen
  statements \<open>if cond: max_alignment = max(max_alignment, v)\<close>; \<open>max_if\<close> is one such
  statement, as a function of the value of \<open>max_alignment\<close> before it.
\<close>

definition max_if :: "bool \<Rightarrow> rat \<Rightarrow> rat \<Rightarrow> rat" where
  "max_if cond v max_alignment = (if cond then max max_alignment v else max_alignment)"

definition alignment_step :: "Opportunity \<Rightarrow> rat \<Rightarrow> Blindspot \<Rightarrow> rat" where
  "alignment_step opp max_alignment blindspot =
     (let category_lower = lower (category blindspot);
          opp_category_lower = lower (opp_category opp);
          opp_name_lower = lower (opp_name opp);
          score = relevance_score blindspot;
          m = max_alignment;
          m = max_if (contains category_lower opp_category_lower) score m;
          m = max_if (contains category_lower ''scholarship'' \<and> opp_category_lower = ''scholarship'')
                score m;
          m = max_if (contains category_lower ''research'' \<and> opp_category_lower = ''internship'')
                (score * (9 / 10)) m;
          m = max_if (contains category_lower ''innovation'' \<and> opp_category_lower = ''program'')
                (score * (9 / 10)) m;
          m = max_if (contains category_lower ''internship'' \<and> opp_category_lower = ''internship'')
                score m;
          m = max_if (contains category_lower ''program'' \<and> opp_category_lower = ''program'')
                score m;
          m = max_if (contains opp_name_lower ''aicte'' \<and> contains category_lower ''category-specific'')
                score m;
          m = max_if (contains opp_name_lower ''central'' \<and> contains category_lower ''income-based'')
                score m;
          m = max_if (contains opp_name_lower ''state'' \<and> contains category_lower ''state'')
                score m;
          m = max_if (contains opp_name_lower ''nptel'' \<and> contains category_lower ''research'')
                score m;
          m = max_if (contains opp_name_lower ''ministry'' \<and> contains category_lower ''innovation'')
                score m;
          m = max_if (contains category_lower ''skill'' \<and> opp_category_lower = ''program'')
                (score * (7 / 10)) m;
          m = max_if (contains category_lower ''merit'' \<and> merit_based (eligibility_criteria opp))
                (score * (8 / 10)) m
      in m)"

definition calculate_blindspot_alignment :: "Opportunity \<Rightarrow> Blindspot list \<Rightarrow> rat" where
  "calculate_blindspot_alignment opp blindspots =
     (let max_alignment = foldl (alignment_step opp) 0 blindspots
      in max max_alignment (3 / 10))"

definition opportunity_category_to_goal :: "string \<rightharpoonup> OpportunityGoal" where
  "opportunity_category_to_goal =
     [''Scholarship'' \<mapsto> OpportunityGoal_SCHOLARSHIPS,
      ''Internship'' \<mapsto> OpportunityGoal_INTERNSHIPS,
      ''Program'' \<mapsto> OpportunityGoal_SKILLS]"

definition calculate_relevance ::
    "StudentProfile \<Rightarrow> ProfileAnalysis \<Rightarrow> Opportunity \<Rightarrow> rat \<Rightarrow> rat" where
  "calculate_relevance profile analysis opp blindspot_alignment =
     (let score = 0;
          score = score + blindspot_alignment * (4 / 10);
          score = (if ImpactLevel_value (impact_level opp) = ''High'' then score + 3 / 10
                   else if ImpactLevel_value (impact_level opp) = ''Medium'' then score + 2 / 10
                   else score + 1 / 10);
          score = (if visibility_level opp = VisibilityLevel_LOW then score + 2 / 10
                   else if visibility_level opp = VisibilityLevel_MEDIUM then score + 15 / 100
                   else score + 1 / 10);
          score = (case opportunity_category_to_goal (opp_category opp) of
                     None \<Rightarrow> score
                   | Some goal \<Rightarrow>
                       if goal \<in> set (priority_goals analysis) then score + 1 / 10 else score)
      in min score 1)"

text \<open>The three ways in which both text generators join their clauses.\<close>

definition join_explanations :: "string list \<Rightarrow> string" where
  "join_explanations explanations =
     (if length explanations = 1 then explanations ! 0 @ ''.''
      else if length explanations = 2 then explanations ! 0 @ '', and '' @ explanations ! 1 @ ''.''
      else join '', '' (butlast explanations) @ '', and '' @ last explanations @ ''.'')"

definition generate_fit_explanation :: "StudentProfile \<Rightarrow> Opportunity \<Rightarrow> string" where
  "generate_fit_explanation profile opp =
     (let criteria = eligibility_criteria opp;
          explanations =
            [''You're a '' @ EducationLevel_value (education_level profile)
             @ '' student, which matches the eligibility''];
          explanations =
            (if fields_of_study criteria \<noteq> None
             then explanations
                  @ [''your '' @ field_of_study profile
                     @ '' background aligns with the program requirements'']
             else explanations);
          explanations =
            (case background_requirements criteria of
               None \<Rightarrow> explanations
             | Some reqs \<Rightarrow>
                 (let matching_backgrounds =
                        filter (\<lambda>bg. bg \<in> set reqs) (background_indicators profile)
                  in if matching_backgrounds \<noteq> []
                     then explanations
                          @ [''your background (''
                             @ join '', '' (map BackgroundIndicator_value matching_backgrounds)
                             @ '') makes you eligible for this targeted program'']
                     else explanations));
          explanations =
            (if income_based criteria
                \<and> BackgroundIndicator_FINANCIAL_SUPPORT \<in> set (background_indicators profile)
             then explanations
                  @ [''this income-based program is designed for students needing financial support'']
             else explanations);
          explanations =
            (if merit_based criteria
             then explanations @ [''this merit-based program recognizes academic achievement'']
             else explanations)
      in join_explanations explanations)"

definition generate_miss_reason :: "Opportunity \<Rightarrow> AwarenessLevel \<Rightarrow> string" where
  "generate_miss_reason opp awareness =
     (let reasons = [];
          reasons =
            (if visibility_level opp = VisibilityLevel_LOW
             then reasons @ [''this program has very low visibility and is rarely promoted in colleges'']
             else if visibility_level opp = VisibilityLevel_MEDIUM
             then reasons @ [''this program is not widely advertised beyond official government portals'']
             else reasons);
          reasons =
            (if contains (opp_name opp) ''AICTE''
             then reasons @ [''AICTE programs are often buried in technical documentation'']
             else if contains (opp_name opp) ''State''
             then reasons @ [''state-level programs vary by region and lack centralized promotion'']
             else if contains (opp_name opp) ''NPTEL''
             then reasons @ [''students often see NPTEL only as a course platform, not for internships'']
             else if contains (opp_name opp) ''Ministry''
             then reasons @ [''ministry programs are scattered across multiple websites'']
             else if contains (opp_name opp) ''Central Sector''
             then reasons @ [''many students assume they need high merit for central scholarships'']
             else reasons);
          reasons =
            (if awareness = AwarenessLevel_LOW
             then reasons @ [''students with limited opportunity awareness often miss such programs'']
             else reasons)
      in if length reasons = 0
         then ''Students often miss this opportunity due to lack of awareness.''
         else if length reasons = 1
         then ''Students usually miss this because '' @ reasons ! 0 @ ''.''
         else ''Students usually miss this because '' @ join '' and '' reasons @ ''.'')"

text \<open>
  The body of the \<open>for\<close> loop of \<open>match_opportunities\<close> for an eligible opportunity, and
  the loop itself: an opportunity that is not eligible is skipped (\<open>continue\<close>).
\<close>

definition make_match ::
    "StudentProfile \<Rightarrow> ProfileAnalysis \<Rightarrow> Blindspot list \<Rightarrow> Opportunity \<Rightarrow> OpportunityMatch" where
  "make_match profile analysis blindspots opp =
     (let blindspot_alignment = calculate_blindspot_alignment opp blindspots;
          relevance = calculate_relevance profile analysis opp blindspot_alignment;
          fit = generate_fit_explanation profile opp;
          miss = generate_miss_reason opp (awareness_level analysis);
          prob = calculate_miss_probability (visibility_level opp) (awareness_level analysis)
      in \<lparr> opportunity = opp,
           fit_explanation = fit,
           miss_reason = miss,
           miss_probability = prob,
           match_relevance_score = relevance \<rparr>)"

fun collect_eligible_matches ::
    "StudentProfile \<Rightarrow> ProfileAnalysis \<Rightarrow> Blindspot list \<Rightarrow> Opportunity list
     \<Rightarrow> OpportunityMatch list" where
  "collect_eligible_matches profile analysis blindspots [] = []"
| "collect_eligible_matches profile analysis blindspots (opp # opportunities) =
     (if \<not> is_eligible profile (eligibility_criteria opp)
      then collect_eligible_matches profile analysis blindspots opportunities
      else make_match profile analysis blindspots opp
           # collect_eligible_matches profile analysis blindspots opportunities)"

definition match_opportunities ::
    "Opportunity list \<Rightarrow> StudentProfile \<Rightarrow> ProfileAnalysis \<Rightarrow> Blindspot list
     \<Rightarrow> OpportunityMatch list" where
  "match_opportunities catalog profile analysis blindspots =
     (let opportunities = get_all_opportunities catalog;
          all_eligible_matches = collect_eligible_matches profile analysis blindspots opportunities;
          all_eligible_matches = sort_reverse match_relevance_score all_eligible_matches
      in if length all_eligible_matches < 2 then all_eligible_matches
         else take (min 3 (length all_eligible_matches)) all_eligible_matches)"

section \<open>StudentProfile.validate (models.py)\<close>

text \<open>
  The required-field check. The tests \<open>x is None\<close> on \<open>age\<close>, \<open>year_of_study\<close> and on
  the enumeration fields cannot succeed on a value of the declared type, which leaves
  the six checks below, in the order of the source.
\<close>

definition validate :: "StudentProfile \<Rightarrow> bool \<times> string list" where
  "validate self =
     (let missing = [];
          missing = (if blank (name self) then missing @ [''name''] else missing);
          missing = (if age self \<le> 0 then missing @ [''age''] else missing);
          missing = (if blank (degree self) then missing @ [''degree''] else missing);
          missing = (if blank (field_of_study self) then missing @ [''field_of_study''] else missing);
          missing = (if year_of_study self \<le> 0 then missing @ [''year_of_study''] else missing);
          missing = (if opportunity_goals self = [] then missing @ [''opportunity_goals''] else missing)
      in (length missing = 0, missing))"

section \<open>ExplanationGenerator (explanation\_generator.py)\<close>

text \<open>
  The templates contain two characters beyond code point 255, the bullet U+2022 and
  the dash U+2014. They are written as their UTF-8 bytes; the program never looks
  inside the generated texts, apart from testing whether a text is blank.
\<close>

definition BULLET :: string where
  "BULLET = [CHR 0xE2, CHR 0x80, CHR 0xA2]"

definition EM_DASH :: string where
  "EM_DASH = [CHR 0xE2, CHR 0x80, CHR 0x94]"

definition NL :: string where
  "NL = [CHR 0x0A]"

definition generate_profile_summary :: "StudentProfile \<Rightarrow> string" where
  "generate_profile_summary profile =
     (let summary = ''Hi '' @ name profile @ ''! I've understood your profile:'' @ NL @ NL;
          summary = summary @ BULLET @ '' You're a '' @ str_int (year_of_study profile) @ ''-year ''
                    @ EducationLevel_value (education_level profile) @ '' student'' @ NL;
          summary = summary @ BULLET @ '' Studying '' @ degree profile @ '' in ''
                    @ field_of_study profile @ NL;
          summary = summary @ BULLET @ '' At a '' @ InstitutionType_value (institution_type profile)
                    @ '' institution'' @ NL;
          summary =
            (if length (background_indicators profile) > 0
             then summary @ BULLET @ '' Background: ''
                  @ join '', '' (map BackgroundIndicator_value (background_indicators profile)) @ NL
             else summary);
          summary = summary @ BULLET @ '' Looking for: ''
                    @ join '', '' (map OpportunityGoal_value (opportunity_goals profile)) @ NL
      in summary)"

definition generate_final_insight ::
    "StudentProfile \<Rightarrow> Blindspot list \<Rightarrow> OpportunityMatch list \<Rightarrow> string" where
  "generate_final_insight profile blindspots matches =
     (let insight = ''Based on your profile, you're likely missing out on '';
          categories = map category blindspots;
          category_str = lower (join '' '' categories);
          insight =
            (if contains category_str ''scholarship''
             then insight @ ''several scholarship opportunities that match your background. ''
             else if contains category_str ''research'' \<or> contains category_str ''internship''
             then insight @ ''opportunities in research, internships, and programs beyond the classroom. ''
             else insight @ ''valuable opportunities that align with your goals and background. '');
          insight = insight @ ''The main barrier isn't your eligibility'' @ EM_DASH
                    @ ''it's simply not knowing these exist. '';
          insight =
            (if missed_opportunities_before profile = MissedOpportunityFrequency_YES_MANY_TIMES
             then insight @ ''Start by exploring the recommendations above, and consider setting up alerts for similar programs. ''
             else if missed_opportunities_before profile = MissedOpportunityFrequency_ONCE_OR_TWICE
             then insight @ ''Take a moment to explore each recommendation'' @ EM_DASH
                  @ ''you're already eligible! ''
             else insight @ ''Now that you're aware, take action on these opportunities'' @ EM_DASH
                  @ ''you're already qualified! '');
          insight = insight @ ''Awareness is the first step to opportunity.''
      in insight)"

section \<open>ApplicationController (application\_controller.py)\<close>

definition validate_field_values :: "StudentProfile \<Rightarrow> string list" where
  "validate_field_values profile =
     (let invalid_fields = [];
          invalid_fields = (if age profile < 0
                            then invalid_fields @ [''age (must be positive)''] else invalid_fields);
          invalid_fields = (if age profile > 150
                            then invalid_fields @ [''age (must be realistic)''] else invalid_fields);
          invalid_fields = (if year_of_study profile < 0
                            then invalid_fields @ [''year_of_study (must be positive)'']
                            else invalid_fields);
          invalid_fields = (if year_of_study profile > 10
                            then invalid_fields @ [''year_of_study (must be realistic)'']
                            else invalid_fields)
      in invalid_fields)"

definition generate_fallback_profile_summary :: "StudentProfile \<Rightarrow> string" where
  "generate_fallback_profile_summary profile =
     (let summary = ''Hi '' @ name profile @ ''! I've understood your profile:'' @ NL @ NL;
          summary = summary @ BULLET @ '' You're a '' @ str_int (year_of_study profile) @ ''-year ''
                    @ EducationLevel_value (education_level profile) @ '' student'' @ NL;
          summary = summary @ BULLET @ '' Studying '' @ degree profile @ '' in ''
                    @ field_of_study profile @ NL;
          summary = summary @ BULLET @ '' At a '' @ InstitutionType_value (institution_type profile)
                    @ '' institution'' @ NL;
          summary =
            (if background_indicators profile \<noteq> []
             then summary @ BULLET @ '' Background: ''
                  @ join '', '' (map BackgroundIndicator_value (background_indicators profile)) @ NL
             else summary);
          summary =
            (if opportunity_goals profile \<noteq> []
             then summary @ BULLET @ '' Looking for: ''
                  @ join '', '' (map OpportunityGoal_value (opportunity_goals profile)) @ NL
             else summary)
      in summary)"

definition generate_fallback_blindspots :: "StudentProfile \<Rightarrow> Blindspot list" where
  "generate_fallback_blindspots profile =
     [\<lparr> category = ''Government Scholarships'',
        reason = ''Many students don't know about government scholarships available for their profile'',
        relevance_score = 8 / 10 \<rparr>,
      \<lparr> category = ''Research and Internship Programs'',
        reason = ''Students often focus on placements and miss research opportunities'',
        relevance_score = 7 / 10 \<rparr>,
      \<lparr> category = ''Skill Development Programs'',
        reason = ''Skill programs are often buried in government websites with poor outreach'',
        relevance_score = 6 / 10 \<rparr>]"

definition generate_fallback_final_insight ::
    "StudentProfile \<Rightarrow> OpportunityMatch list \<Rightarrow> string" where
  "generate_fallback_final_insight profile matches =
     ''Based on your profile, you're likely missing out on several opportunities that match your background. ''
     @ ''The main barrier isn't your eligibility'' @ EM_DASH @ ''it's simply not knowing these exist. ''
     @ ''Take a moment to explore each recommendation'' @ EM_DASH @ ''you're already eligible! ''
     @ ''Awareness is the first step to opportunity.''"

definition generate_no_matches_insight :: "StudentProfile \<Rightarrow> string" where
  "generate_no_matches_insight profile =
     ''Hi '' @ name profile @ '', based on your current profile, we don't have specific opportunities ''
     @ ''in our knowledge base that match your eligibility criteria right now. ''
     @ ''This doesn't mean opportunities don't exist'' @ EM_DASH
     @ ''it means our current database is limited. ''
     @ ''We recommend checking back later as we continuously update our opportunity database. ''
     @ ''In the meantime, explore the blindspot categories we identified'' @ EM_DASH
     @ ''they can guide your own research!''"

text \<open>
  The dictionary that \<open>handle_form_submission\<close> returns, with one field \<open>res_k\<close> for
  each key \<open>k\<close>: a key that a branch does not set is \<open>None\<close>. \<open>result_dict v\<close> is
  the dictionary with the key \<open>valid\<close> only.
\<close>

record SubmissionResult =
  res_valid :: bool
  res_missing_fields :: "string list option"
  res_invalid_fields :: "string list option"
  res_profile_summary :: "string option"
  res_blindspots :: "Blindspot list option"
  res_matches :: "OpportunityMatch list option"
  res_final_insight :: "string option"
  res_no_matches :: "bool option"
  res_error :: "string option"

definition result_dict :: "bool \<Rightarrow> SubmissionResult" where
  "result_dict v =
     \<lparr> res_valid = v, res_missing_fields = None, res_invalid_fields = None, res_profile_summary = None,
       res_blindspots = None, res_matches = None, res_final_insight = None, res_no_matches = None,
       res_error = None \<rparr>"

text \<open>
  To state which components a submission runs, the model returns, next to the
  dictionary, the calls that the controller made to its components, in order.
\<close>

datatype component_call =
  Call_analyze | Call_generate_profile_summary | Call_identify_blindspots
  | Call_match_opportunities | Call_generate_final_insight

text \<open>
  The \<open>try\<close> block. The only exception that a component can raise on a profile of the
  declared type is the ValueError of \<open>identify_blindspots\<close>; the \<open>except\<close> clause turns
  it into the generic error dictionary.
\<close>

definition run_pipeline ::
    "Opportunity list \<Rightarrow> StudentProfile \<Rightarrow> component_call list \<times> SubmissionResult" where
  "run_pipeline catalog profile =
     (let analysis = analyze profile;
          summary = generate_profile_summary profile;
          summary = (if blank summary then generate_fallback_profile_summary profile else summary)
      in case identify_blindspots profile analysis of
           Inl e \<Rightarrow>
             ([Call_analyze, Call_generate_profile_summary, Call_identify_blindspots],
              (result_dict False)
                \<lparr> res_error := Some ''An unexpected error occurred while processing your profile. Please try again.'' \<rparr>)
         | Inr blindspots \<Rightarrow>
             (let blindspots = (if blindspots = [] then generate_fallback_blindspots profile else blindspots);
                  matches = match_opportunities catalog profile analysis blindspots
              in if matches = []
                 then ([Call_analyze, Call_generate_profile_summary, Call_identify_blindspots,
                        Call_match_opportunities],
                       (result_dict True)
                         \<lparr> res_profile_summary := Some summary,
                           res_blindspots := Some blindspots,
                           res_matches := Some [],
                           res_final_insight := Some (generate_no_matches_insight profile),
                           res_no_matches := Some True \<rparr>)
                 else (let insight = generate_final_insight profile blindspots matches;
                           insight = (if blank insight
                                      then generate_fallback_final_insight profile matches else insight)
                       in ([Call_analyze, Call_generate_profile_summary, Call_identify_blindspots,
                            Call_match_opportunities, Call_generate_final_insight],
                           (result_dict True)
                             \<lparr> res_profile_summary := Some summary,
                               res_blindspots := Some blindspots,
                               res_matches := Some matches,
                               res_final_insight := Some insight \<rparr>))))"

definition handle_form_submission ::
    "Opportunity list \<Rightarrow> StudentProfile \<Rightarrow> component_call list \<times> SubmissionResult" where
  "handle_form_submission catalog profile =
     (let invalid = validate_field_values profile
      in if invalid \<noteq> []
         then ([], (result_dict False) \<lparr> res_invalid_fields := Some invalid \<rparr>)
         else (let (is_valid, missing) = validate profile
               in if \<not> is_valid
                  then ([], (result_dict False) \<lparr> res_missing_fields := Some missing \<rparr>)
                  else (let opportunities = get_all_opportunities catalog
                        in if opportunities = []
                           then ([], (result_dict False)
                                       \<lparr> res_error := Some ''System Error: Opportunity knowledge base is currently unavailable. Please try again later.'' \<rparr>)
                           else run_pipeline catalog profile)))"

section \<open>Definitions used to state the properties\<close>

subsection \<open>The relevance formula and the alignment heuristics, as the specification words them\<close>





text \<open>
  The specification describes the alignment as a maximum over a fixed set of
  heuristics, tested for each blindspot. \<open>fired_values opp b\<close> lists, in the order of
  the source, the value of every heuristic whose test holds for the opportunity and the
  blindspot \<open>b\<close>; \<open>fired_alignments\<close> collects them over a list of blindspots.
\<close>

definition fires :: "bool \<Rightarrow> rat \<Rightarrow> rat list" where
  "fires cond v = (if cond then [v] else [])"

definition fired_values :: "Opportunity \<Rightarrow> Blindspot \<Rightarrow> rat list" where
  "fired_values opp blindspot =
     (let cat = lower (category blindspot);
          oc = lower (opp_category opp);
          on = lower (opp_name opp);
          s = relevance_score blindspot
      in fires (contains cat oc) s
         @ fires (contains cat ''scholarship'' \<and> oc = ''scholarship'') s
         @ fires (contains cat ''research'' \<and> oc = ''internship'') (s * (9 / 10))
         @ fires (contains cat ''innovation'' \<and> oc = ''program'') (s * (9 / 10))
         @ fires (contains cat ''internship'' \<and> oc = ''internship'') s
         @ fires (contains cat ''program'' \<and> oc = ''program'') s
         @ fires (contains on ''aicte'' \<and> contains cat ''category-specific'') s
         @ fires (contains on ''central'' \<and> contains cat ''income-based'') s
         @ fires (contains on ''state'' \<and> contains cat ''state'') s
         @ fires (contains on ''nptel'' \<and> contains cat ''research'') s
         @ fires (contains on ''ministry'' \<and> contains cat ''innovation'') s
         @ fires (contains cat ''skill'' \<and> oc = ''program'') (s * (7 / 10))
         @ fires (contains cat ''merit'' \<and> merit_based (eligibility_criteria opp)) (s * (8 / 10)))"

definition fired_alignments :: "Opportunity \<Rightarrow> Blindspot list \<Rightarrow> rat list" where
  "fired_alignments opp blindspots = concat (map (fired_values opp) blindspots)"

text \<open>What the specification requires of every blindspot that is returned.\<close>

definition well_formed_blindspot :: "Blindspot \<Rightarrow> bool" where
  "well_formed_blindspot b =
     (category b \<noteq> [] \<and> reason b \<noteq> [] \<and> 0 < relevance_score b \<and> relevance_score b \<le> 1)"

text \<open>The message of the result for an empty knowledge base.\<close>

definition KNOWLEDGE_BASE_UNAVAILABLE :: string where
  "KNOWLEDGE_BASE_UNAVAILABLE =
     ''System Error: Opportunity knowledge base is currently unavailable. Please try again later.''"

subsection \<open>Concrete inputs\<close>

text \<open>
  The scenario of the specification: an undergraduate in Computer Science at a
  Government institution, with a Rural and Financial support background, looking for
  scholarships, who has missed opportunities many times. The other profiles differ
  from it in one field.
\<close>

definition scenario_profile :: StudentProfile where
  "scenario_profile =
     \<lparr> name = ''Asha'', age = 20, education_level = EducationLevel_UG, degree = ''B.Tech'',
       field_of_study = ''Computer Science'', year_of_study = 2,
       institution_type = InstitutionType_GOVERNMENT,
       background_indicators = [BackgroundIndicator_RURAL, BackgroundIndicator_FINANCIAL_SUPPORT],
       opportunity_goals = [OpportunityGoal_SCHOLARSHIPS],
       missed_opportunities_before = MissedOpportunityFrequency_YES_MANY_TIMES,
       gender = None, additional_context = None \<rparr>"

definition scenario_blindspots :: "Blindspot list" where
  "scenario_blindspots =
     (case identify_blindspots scenario_profile (analyze scenario_profile) of
        Inl e \<Rightarrow> [] | Inr found \<Rightarrow> found)"



definition plain_profile :: StudentProfile where
  "plain_profile = scenario_profile \<lparr> background_indicators := [] \<rparr>"

text \<open>A blindspot whose score lies below the base alignment of 0.3.\<close>

definition low_blindspot :: Blindspot where
  "low_blindspot =
     \<lparr> category = ''Merit and Need-based Scholarships'',
       reason = ''Many scholarship programs exist beyond the well-known ones, but lack awareness'',
       relevance_score = 2 / 10 \<rparr>"

section \<open>Auxiliary lemmas\<close>

subsection \<open>The reversed stable sort\<close>

lemma sort_reverse_sorted: "sorted_wrt (\<lambda>x y. k y \<le> k x) (sort_reverse k xs)"
proof -
  have "sorted (map (\<lambda>x. - k x) (sort_key (\<lambda>x. - k x) xs))"
    by (rule sorted_sort_key)
  then show ?thesis
    by (simp add: sort_reverse_def sorted_map)
qed

lemma sort_reverse_stable:
  "filter (\<lambda>x. k x = v) (sort_reverse k xs) = filter (\<lambda>x. k x = v) xs"
proof -
  have "filter (\<lambda>x. - k x = - v) (sort_key (\<lambda>x. - k x) xs) = filter (\<lambda>x. - k x = - v) xs"
    by (rule sort_key_stable)
  then show ?thesis
    by (simp add: sort_reverse_def)
qed

lemma length_sort_reverse: "length (sort_reverse k xs) = length xs"
  by (simp add: sort_reverse_def)

lemma set_sort_reverse: "set (sort_reverse k xs) = set xs"
  by (simp add: sort_reverse_def)


text \<open>
  Among the elements of one score, a prefix of the sorted list holds a prefix of the
  elements in their original order.
\<close>

lemma take_sort_reverse_ties:
  "prefix (filter (\<lambda>x. k x = v) (take n (sort_reverse k xs))) (filter (\<lambda>x. k x = v) xs)"
proof -
  have "prefix (filter (\<lambda>x. k x = v) (take n (sort_reverse k xs)))
               (filter (\<lambda>x. k x = v) (sort_reverse k xs))"
    by (rule filter_mono_prefix) (rule take_is_prefix)
  then show ?thesis
    by (simp add: sort_reverse_stable)
qed


subsection \<open>The blindspot rules\<close>

lemma length_append_if: "length (append_if c b bs) = (if c then Suc (length bs) else length bs)"
  by (simp add: append_if_def)

lemma rule10_length: "min 3 (Suc (length bs)) \<le> length (rule10 bs)"
  by (simp add: rule10_def length_append_if)

lemma rule11_length: "min 3 (Suc (length bs)) \<le> length (rule11 bs)"
  by (simp add: rule11_def length_append_if)

lemma rule12_length: "min 3 (Suc (length bs)) \<le> length (rule12 bs)"
  by (simp add: rule12_def length_append_if)

lemma fallback_rules_length: "3 \<le> length (fallback_rules a bs)"
proof -
  let ?b9 = "rule9 a bs"
  have "min 3 (Suc (length ?b9)) \<le> length (rule10 ?b9)"
    by (rule rule10_length)
  moreover have "min 3 (Suc (length (rule10 ?b9))) \<le> length (rule11 (rule10 ?b9))"
    by (rule rule11_length)
  moreover have "min 3 (Suc (length (rule11 (rule10 ?b9))))
                   \<le> length (rule12 (rule11 (rule10 ?b9)))"
    by (rule rule12_length)
  ultimately have "3 \<le> length (rule12 (rule11 (rule10 ?b9)))"
    by linarith
  then show ?thesis
    by (simp add: fallback_rules_def)
qed

lemma accumulated_length: "3 \<le> length (accumulated_blindspots p a)"
  by (simp add: accumulated_blindspots_def fallback_rules_length)

lemma append_if_well_formed:
  "well_formed_blindspot b \<Longrightarrow> list_all well_formed_blindspot bs
   \<Longrightarrow> list_all well_formed_blindspot (append_if c b bs)"
  by (simp add: append_if_def)

lemma rules_well_formed:
  "list_all well_formed_blindspot bs \<Longrightarrow> list_all well_formed_blindspot (rule1 a bs)"
  "list_all well_formed_blindspot bs \<Longrightarrow> list_all well_formed_blindspot (rule2 p bs)"
  "list_all well_formed_blindspot bs \<Longrightarrow> list_all well_formed_blindspot (rule3 p a bs)"
  "list_all well_formed_blindspot bs \<Longrightarrow> list_all well_formed_blindspot (rule4 p a bs)"
  "list_all well_formed_blindspot bs \<Longrightarrow> list_all well_formed_blindspot (rule5 p a bs)"
  "list_all well_formed_blindspot bs \<Longrightarrow> list_all well_formed_blindspot (rule6 a bs)"
  "list_all well_formed_blindspot bs \<Longrightarrow> list_all well_formed_blindspot (rule7 a bs)"
  "list_all well_formed_blindspot bs \<Longrightarrow> list_all well_formed_blindspot (rule8 p a bs)"
  "list_all well_formed_blindspot bs \<Longrightarrow> list_all well_formed_blindspot (rule9 a bs)"
  "list_all well_formed_blindspot bs \<Longrightarrow> list_all well_formed_blindspot (rule10 bs)"
  "list_all well_formed_blindspot bs \<Longrightarrow> list_all well_formed_blindspot (rule11 bs)"
  "list_all well_formed_blindspot bs \<Longrightarrow> list_all well_formed_blindspot (rule12 bs)"
  unfolding rule1_def rule2_def rule3_def rule4_def rule5_def rule6_def rule7_def rule8_def
    rule9_def rule10_def rule11_def rule12_def
  by (rule append_if_well_formed, simp add: well_formed_blindspot_def, assumption)+

lemma accumulated_well_formed: "list_all well_formed_blindspot (accumulated_blindspots p a)"
  by (simp add: accumulated_blindspots_def fallback_rules_def primary_rules_def rules_well_formed)

lemma identify_blindspots_eq:
  "identify_blindspots p a = Inr (take 5 (sort_reverse relevance_score (accumulated_blindspots p a)))"
  using accumulated_length [of p a]
  by (simp add: identify_blindspots_def Let_def length_sort_reverse)

subsection \<open>The matcher\<close>




subsection \<open>The alignment loop as a maximum\<close>

lemma max_if_fires: "max_if c v m = foldl max m (fires c v)"
  by (simp add: max_if_def fires_def)

lemma alignment_step_fired: "alignment_step opp m b = foldl max m (fired_values opp b)"
  by (simp only: alignment_step_def fired_values_def Let_def max_if_fires foldl_append)

lemma foldl_alignment_step:
  "foldl (alignment_step opp) m bs = foldl max m (fired_alignments opp bs)"
  by (induction bs arbitrary: m) (simp_all add: fired_alignments_def alignment_step_fired)

lemma foldl_max_Max: "foldl max (m::rat) xs = Max (insert m (set xs))"
proof (induction xs arbitrary: m)
  case Nil
  then show ?case by simp
next
  case (Cons x xs)
  have "foldl max m (x # xs) = Max (insert (max m x) (set xs))"
    by (simp add: Cons.IH)
  also have "\<dots> = Max (insert m (set (x # xs)))"
  proof (cases "set xs = {}")
    case True
    then show ?thesis by (simp add: max.commute)
  next
    case False
    then show ?thesis by (simp add: max.assoc max.commute max.left_commute)
  qed
  finally show ?case .
qed

lemma calculate_blindspot_alignment_Max:
  "calculate_blindspot_alignment opp bs = Max (insert (3 / 10) (set (fired_alignments opp bs)))"
proof -
  let ?F = "set (fired_alignments opp bs)"
  have "calculate_blindspot_alignment opp bs = max (Max (insert 0 ?F)) (3 / 10)"
    by (simp add: calculate_blindspot_alignment_def Let_def foldl_alignment_step foldl_max_Max)
  also have "\<dots> = Max (insert (3 / 10) ?F)"
  proof (cases "?F = {}")
    case True
    then show ?thesis by simp
  next
    case False
    then show ?thesis by (simp add: max.assoc max.commute)
  qed
  finally show ?thesis .
qed

lemma in_fires: "x \<in> set (fires c v) \<Longrightarrow> x = v"
  by (simp add: fires_def split: if_splits)

lemma fired_values_le_1:
  assumes "relevance_score b \<le> 1" and "x \<in> set (fired_values opp b)"
  shows "x \<le> 1"
proof -
  from assms(2) have "x = relevance_score b \<or> x = relevance_score b * (9 / 10)
      \<or> x = relevance_score b * (7 / 10) \<or> x = relevance_score b * (8 / 10)"
    by (auto simp: fired_values_def Let_def dest!: in_fires)
  with assms(1) show ?thesis by auto
qed

subsection \<open>The controller\<close>


lemma unavailable_message:
  "contains KNOWLEDGE_BASE_UNAVAILABLE ''knowledge base''"
  "contains KNOWLEDGE_BASE_UNAVAILABLE ''unavailable''"
  by code_simp+

subsection \<open>Values at the concrete inputs\<close>

lemma scenario_identified:
  "identify_blindspots scenario_profile (analyze scenario_profile) = Inr scenario_blindspots
   \<and> map category scenario_blindspots =
       [''Income-based Central Government Scholarships'', ''Research Internships and Programs'',
        ''State-level Merit Scholarships'']
   \<and> map relevance_score scenario_blindspots = [9 / 10, 8 / 10, 7 / 10]"
  by code_simp



section \<open>The claims\<close>

subsection \<open>C1: the contract of identify\_blindspots\<close>

text \<open>
  C1. For every profile and analysis, \<open>identify_blindspots\<close> returns a list. Its
  length is between 3 and 5, it is sorted by relevance score in descending order,
  blindspots of equal score stand in the order in which the rules produced them, and
  every element has a non-empty category, a non-empty reason and a score in (0,1].
  The order of ties is stated score by score: the returned blindspots of score \<open>v\<close>
  are an initial segment of the accumulated blindspots of score \<open>v\<close>, in rule order.
\<close>

theorem identify_blindspots_contract:
  "\<exists>bs. identify_blindspots profile analysis = Inr bs
        \<and> 3 \<le> length bs \<and> length bs \<le> 5
        \<and> sorted_wrt (\<lambda>x y. relevance_score y \<le> relevance_score x) bs
        \<and> (\<forall>v. prefix (filter (\<lambda>b. relevance_score b = v) bs)
                       (filter (\<lambda>b. relevance_score b = v)
                          (accumulated_blindspots profile analysis)))
        \<and> (\<forall>b \<in> set bs. category b \<noteq> [] \<and> reason b \<noteq> []
                         \<and> 0 < relevance_score b \<and> relevance_score b \<le> 1)"
proof -
  let ?acc = "accumulated_blindspots profile analysis"
  let ?bs = "take 5 (sort_reverse relevance_score ?acc)"
  have eq: "identify_blindspots profile analysis = Inr ?bs"
    by (rule identify_blindspots_eq)
  have len: "3 \<le> length ?bs \<and> length ?bs \<le> 5"
    using accumulated_length [of profile analysis] by (simp add: length_sort_reverse)
  have srt: "sorted_wrt (\<lambda>x y. relevance_score y \<le> relevance_score x) ?bs"
    by (rule sorted_wrt_take) (rule sort_reverse_sorted)
  have ties: "\<forall>v. prefix (filter (\<lambda>b. relevance_score b = v) ?bs)
                         (filter (\<lambda>b. relevance_score b = v) ?acc)"
    by (simp add: take_sort_reverse_ties)
  have "set ?bs \<subseteq> set ?acc"
    using set_take_subset [of 5 "sort_reverse relevance_score ?acc"]
    by (simp add: set_sort_reverse)
  moreover have "\<forall>b \<in> set ?acc. well_formed_blindspot b"
    using accumulated_well_formed [of profile analysis] by (simp add: list_all_iff)
  ultimately have ok: "\<forall>b \<in> set ?bs. category b \<noteq> [] \<and> reason b \<noteq> []
                         \<and> 0 < relevance_score b \<and> relevance_score b \<le> 1"
    by (auto simp: well_formed_blindspot_def)
  from eq len srt ties ok show ?thesis by blast
qed

text \<open>
  At the scenario profile the three blindspots returned are those of rules 1, 2 and 3,
  with the scores 0.9, 0.8 and 0.7.
\<close>

theorem identify_blindspots_contract_witness:
  "identify_blindspots scenario_profile (analyze scenario_profile) = Inr scenario_blindspots
   \<and> map category scenario_blindspots =
       [''Income-based Central Government Scholarships'', ''Research Internships and Programs'',
        ''State-level Merit Scholarships'']
   \<and> map relevance_score scenario_blindspots = [9 / 10, 8 / 10, 7 / 10]
   \<and> length scenario_blindspots = 3
   \<and> sorted_wrt (\<lambda>x y. relevance_score y \<le> relevance_score x) scenario_blindspots"
proof -
  have "length (map category scenario_blindspots) = 3"
    using scenario_identified by simp
  then have "length scenario_blindspots = 3"
    by simp
  with identify_blindspots_contract [of scenario_profile "analyze scenario_profile"]
    scenario_identified
  show ?thesis by auto
qed

subsection \<open>C2: the contract of match\_opportunities\<close>



subsection \<open>C3: value validation comes first\<close>




subsection \<open>C4: the blindspot alignment\<close>

text \<open>
  C4, as the code has it. For every opportunity and every list of blindspots whose
  scores lie in (0,1], the alignment is the maximum of 0.3 and of the values of all
  heuristics that fire, over all blindspots; it lies in [0.3, 1]. The base value 0.3 is
  a lower bound in every case, so a heuristic that fires with a value below 0.3 does
  not lower the result.
\<close>

theorem calculate_blindspot_alignment_floor:
  assumes "\<forall>b \<in> set blindspots. 0 < relevance_score b \<and> relevance_score b \<le> 1"
  shows "calculate_blindspot_alignment opp blindspots
           = Max (insert (3 / 10) (set (fired_alignments opp blindspots)))
         \<and> 3 / 10 \<le> calculate_blindspot_alignment opp blindspots
         \<and> calculate_blindspot_alignment opp blindspots \<le> 1"
proof -
  let ?F = "set (fired_alignments opp blindspots)"
  have eq: "calculate_blindspot_alignment opp blindspots = Max (insert (3 / 10) ?F)"
    by (rule calculate_blindspot_alignment_Max)
  have lo: "3 / 10 \<le> Max (insert (3 / 10) ?F)"
    by (rule Max_ge) simp_all
  have "\<forall>x \<in> ?F. x \<le> 1"
    using assms by (auto simp: fired_alignments_def intro: fired_values_le_1)
  then have hi: "Max (insert (3 / 10) ?F) \<le> 1"
    by simp
  from eq lo hi show ?thesis by simp
qed

theorem calculate_blindspot_alignment_floor_witness:
  "(0 < relevance_score low_blindspot \<and> relevance_score low_blindspot \<le> 1)
   \<and> calculate_blindspot_alignment (OPPORTUNITIES ! 0) [low_blindspot] = 3 / 10
   \<and> Max (insert (3 / 10) (set (fired_alignments (OPPORTUNITIES ! 0) [low_blindspot]))) = 3 / 10"
proof -
  have h: "\<forall>b \<in> set [low_blindspot]. 0 < relevance_score b \<and> relevance_score b \<le> 1"
    by (simp add: low_blindspot_def)
  have v: "calculate_blindspot_alignment (OPPORTUNITIES ! 0) [low_blindspot] = 3 / 10"
    by code_simp
  from calculate_blindspot_alignment_floor [OF h, of "OPPORTUNITIES ! 0"] v h
  show ?thesis by simp
qed

text \<open>
  The claim as worded lets a fired heuristic below 0.3 through. For the Central Sector
  Scholarship and a scholarship blindspot of score 0.2, two heuristics fire, both with
  the value 0.2, and the alignment is 0.3, not 0.2.
\<close>

theorem alignment_floor_counterexample:
  "0 < relevance_score low_blindspot \<and> relevance_score low_blindspot \<le> 1
   \<and> fired_values (OPPORTUNITIES ! 0) low_blindspot = [2 / 10, 2 / 10]
   \<and> calculate_blindspot_alignment (OPPORTUNITIES ! 0) [low_blindspot] = 3 / 10"
  by code_simp

subsection \<open>C5: the miss-probability table\<close>

text \<open>
  C5. Low visibility gives High for every awareness level; Medium visibility gives
  High, Medium, Low for Low, Medium, High awareness; High visibility gives Medium for
  Low awareness and Low for Medium and for High awareness.
\<close>

theorem calculate_miss_probability_table:
  "calculate_miss_probability VisibilityLevel_LOW awareness = MissProbability_HIGH
   \<and> calculate_miss_probability VisibilityLevel_MEDIUM AwarenessLevel_LOW = MissProbability_HIGH
   \<and> calculate_miss_probability VisibilityLevel_MEDIUM AwarenessLevel_MEDIUM = MissProbability_MEDIUM
   \<and> calculate_miss_probability VisibilityLevel_MEDIUM AwarenessLevel_HIGH = MissProbability_LOW
   \<and> calculate_miss_probability VisibilityLevel_HIGH AwarenessLevel_LOW = MissProbability_MEDIUM
   \<and> calculate_miss_probability VisibilityLevel_HIGH AwarenessLevel_MEDIUM = MissProbability_LOW
   \<and> calculate_miss_probability VisibilityLevel_HIGH AwarenessLevel_HIGH = MissProbability_LOW"
  by (simp add: calculate_miss_probability_def)

subsection \<open>C6: the relevance formula\<close>


subsection \<open>C7: the empty knowledge base\<close>

text \<open>
  C7. For every profile that passes both validations, a submission against an empty
  catalog returns a result that is not valid, whose error message contains
  "knowledge base" and "unavailable"; the controller has called none of its components
  (no analysis, no blindspot identification, no matching), and the result carries
  neither blindspots nor matches.
\<close>

theorem empty_catalog_short_circuit:
  assumes "validate_field_values profile = []" and "fst (validate profile)"
  shows "fst (handle_form_submission [] profile) = []
       \<and> res_valid (snd (handle_form_submission [] profile)) = False
       \<and> res_error (snd (handle_form_submission [] profile)) = Some KNOWLEDGE_BASE_UNAVAILABLE
       \<and> contains KNOWLEDGE_BASE_UNAVAILABLE ''knowledge base''
       \<and> contains KNOWLEDGE_BASE_UNAVAILABLE ''unavailable''
       \<and> res_blindspots (snd (handle_form_submission [] profile)) = None
       \<and> res_matches (snd (handle_form_submission [] profile)) = None"
proof -
  have "handle_form_submission [] profile =
          ([], (result_dict False) \<lparr> res_error := Some KNOWLEDGE_BASE_UNAVAILABLE \<rparr>)"
    using assms
    by (cases "validate profile")
       (simp add: handle_form_submission_def Let_def get_all_opportunities_def
          KNOWLEDGE_BASE_UNAVAILABLE_def)
  then show ?thesis
    by (simp add: result_dict_def unavailable_message)
qed

theorem empty_catalog_short_circuit_witness:
  "validate_field_values scenario_profile = [] \<and> fst (validate scenario_profile)
   \<and> fst (handle_form_submission [] scenario_profile) = []
   \<and> res_valid (snd (handle_form_submission [] scenario_profile)) = False
   \<and> res_error (snd (handle_form_submission [] scenario_profile))
       = Some KNOWLEDGE_BASE_UNAVAILABLE"
proof -
  have h1: "validate_field_values scenario_profile = []" by code_simp
  have h2: "fst (validate scenario_profile)" by code_simp
  from empty_catalog_short_circuit [OF h1 h2] h1 h2 show ?thesis by simp
qed

subsection \<open>C9: the internal-consistency error cannot occur\<close>

text \<open>
  C9. Each of the last three fallback rules (rules 10, 11 and 12) appends its
  blindspot whenever the list holds fewer than three. Hence, for every profile and
  analysis, the list holds at least three blindspots when its length is checked after
  the sort, and \<open>identify_blindspots\<close> returns a list: it never raises the ValueError.
\<close>

theorem identify_blindspots_never_raises:
  "(length bs < 3 \<longrightarrow>
      length (rule10 bs) = Suc (length bs) \<and> length (rule11 bs) = Suc (length bs)
      \<and> length (rule12 bs) = Suc (length bs))
   \<and> 3 \<le> length (sort_reverse relevance_score (accumulated_blindspots profile analysis))
   \<and> (\<exists>found. identify_blindspots profile analysis = Inr found)
   \<and> (\<forall>e. identify_blindspots profile analysis \<noteq> Inl e)"
proof -
  have fire: "length bs < 3 \<longrightarrow>
      length (rule10 bs) = Suc (length bs) \<and> length (rule11 bs) = Suc (length bs)
      \<and> length (rule12 bs) = Suc (length bs)"
    by (simp add: rule10_def rule11_def rule12_def length_append_if)
  have len: "3 \<le> length (sort_reverse relevance_score (accumulated_blindspots profile analysis))"
    by (simp add: length_sort_reverse accumulated_length)
  have ret: "identify_blindspots profile analysis
               = Inr (take 5 (sort_reverse relevance_score (accumulated_blindspots profile analysis)))"
    by (rule identify_blindspots_eq)
  from fire len ret show ?thesis by simp
qed

text \<open>
  On the empty list each of the three rules appends one blindspot, and together the
  fallback rules bring a profile without any goal to exactly three blindspots.
\<close>

theorem identify_blindspots_never_raises_witness:
  "length ([] :: Blindspot list) < 3
   \<and> length (rule10 []) = 1 \<and> length (rule11 []) = 1 \<and> length (rule12 []) = 1
   \<and> length (accumulated_blindspots (plain_profile \<lparr> opportunity_goals := [] \<rparr>)
               (analyze (plain_profile \<lparr> opportunity_goals := [] \<rparr>))) = 3"
proof -
  have n: "length (accumulated_blindspots (plain_profile \<lparr> opportunity_goals := [] \<rparr>)
               (analyze (plain_profile \<lparr> opportunity_goals := [] \<rparr>))) = 3"
    by code_simp
  from identify_blindspots_never_raises [of "[]"] n show ?thesis by simp
qed

subsection \<open>C10: eligibility ignores the income and merit flags\<close>

text \<open>
  C10. \<open>is_eligible\<close> depends only on the education level, the field of study, the
  institution type and the background indicators of the profile, and on the four
  matching constraints of the criteria: two profiles and two criteria that agree on
  these give the same answer. In particular the flags \<open>income_based\<close> and
  \<open>merit_based\<close> never change the answer, so a student without the Financial support
  indicator who satisfies the other constraints of an income-based opportunity is
  eligible for it.
\<close>

theorem is_eligible_ignores_income_and_merit:
  "(education_level p = education_level p' \<and> field_of_study p = field_of_study p'
     \<and> institution_type p = institution_type p'
     \<and> background_indicators p = background_indicators p'
     \<and> education_levels c = education_levels c' \<and> fields_of_study c = fields_of_study c'
     \<and> institution_types c = institution_types c'
     \<and> background_requirements c = background_requirements c'
     \<longrightarrow> is_eligible p c = is_eligible p' c')
   \<and> is_eligible p (c \<lparr> income_based := i, merit_based := m \<rparr>) = is_eligible p c
   \<and> (BackgroundIndicator_FINANCIAL_SUPPORT \<notin> set (background_indicators p)
      \<and> income_based c
      \<and> is_eligible p (c \<lparr> income_based := False \<rparr>)
      \<longrightarrow> is_eligible p c)"
proof -
  have cong: "education_level p = education_level p' \<and> field_of_study p = field_of_study p'
     \<and> institution_type p = institution_type p'
     \<and> background_indicators p = background_indicators p'
     \<and> education_levels c = education_levels c' \<and> fields_of_study c = fields_of_study c'
     \<and> institution_types c = institution_types c'
     \<and> background_requirements c = background_requirements c'
     \<longrightarrow> is_eligible p c = is_eligible p' c'"
  proof
    assume "education_level p = education_level p' \<and> field_of_study p = field_of_study p'
     \<and> institution_type p = institution_type p'
     \<and> background_indicators p = background_indicators p'
     \<and> education_levels c = education_levels c' \<and> fields_of_study c = fields_of_study c'
     \<and> institution_types c = institution_types c'
     \<and> background_requirements c = background_requirements c'"
    then have "education_level p = education_level p'" "field_of_study p = field_of_study p'"
      "institution_type p = institution_type p'"
      "background_indicators p = background_indicators p'"
      "education_levels c = education_levels c'" "fields_of_study c = fields_of_study c'"
      "institution_types c = institution_types c'"
      "background_requirements c = background_requirements c'"
      by blast+
    then show "is_eligible p c = is_eligible p' c'"
      by (simp only: is_eligible_def)
  qed
  have flags: "is_eligible p (c \<lparr> income_based := i, merit_based := m \<rparr>) = is_eligible p c"
    by (simp add: is_eligible_def)
  have "is_eligible p (c \<lparr> income_based := False \<rparr>) = is_eligible p c"
    by (simp add: is_eligible_def)
  with cong flags show ?thesis by blast
qed

text \<open>
  The Central Sector Scholarship is income-based; the scenario student without any
  background indicator is eligible for it, as is every student who differs from that
  student only in name and age.
\<close>

theorem is_eligible_ignores_income_and_merit_witness:
  "BackgroundIndicator_FINANCIAL_SUPPORT \<notin> set (background_indicators plain_profile)
   \<and> income_based (eligibility_criteria (OPPORTUNITIES ! 0))
   \<and> is_eligible plain_profile
        ((eligibility_criteria (OPPORTUNITIES ! 0)) \<lparr> income_based := False \<rparr>)
   \<and> is_eligible plain_profile (eligibility_criteria (OPPORTUNITIES ! 0))
   \<and> is_eligible (plain_profile \<lparr> name := ''Ravi'', age := 23 \<rparr>)
        (eligibility_criteria (OPPORTUNITIES ! 0))"
proof -
  let ?c = "eligibility_criteria (OPPORTUNITIES ! 0)"
  have h: "BackgroundIndicator_FINANCIAL_SUPPORT \<notin> set (background_indicators plain_profile)
     \<and> income_based ?c
     \<and> is_eligible plain_profile (?c \<lparr> income_based := False \<rparr>)"
    by code_simp
  note inst = is_eligible_ignores_income_and_merit
         [of plain_profile "plain_profile \<lparr> name := ''Ravi'', age := 23 \<rparr>" ?c ?c True False]
  have same: "is_eligible plain_profile ?c
                = is_eligible (plain_profile \<lparr> name := ''Ravi'', age := 23 \<rparr>) ?c"
    using inst by simp
  have "is_eligible plain_profile ?c"
    using inst h by blast
  with same h show ?thesis by blast
qed

end
